theory Spec2Isabelle
  imports Complex_Main "HOL-Library.Multiset" "HOL-Library.Code_Target_Nat"
begin

section \<open>Task management API: data model\<close>

text \<open>
  The embedding follows \<^verbatim>\<open>src/routes/tasks.ts\<close>, \<^verbatim>\<open>src/middleware/auth.ts\<close>,
  \<^verbatim>\<open>src/models/Task.ts\<close>, \<^verbatim>\<open>src/models/User.ts\<close> and the error handler of
  \<^verbatim>\<open>index.ts\<close>. Requests have the types the handlers declare (\<^verbatim>\<open>TaskParams\<close>,
  \<^verbatim>\<open>RawQueryParams\<close>, \<^verbatim>\<open>CreateTaskBody\<close>, \<^verbatim>\<open>UpdateTaskBody\<close>): identifiers and
  query parameters are arbitrary strings, body fields are strings that may be absent
  (\<open>None\<close> is JavaScript's \<^verbatim>\<open>undefined\<close>). Strings are ASCII, so \<open>length\<close> is the
  JavaScript \<^verbatim>\<open>.length\<close>. Timestamps are milliseconds as \<open>int\<close>.

  The document store is a pair of collections, each a list of documents in insertion
  order. The Mongoose model operations the handlers call are written out as functions on
  that store, with the schema options of the two models (\<^verbatim>\<open>trim\<close>, \<^verbatim>\<open>required\<close>,
  \<^verbatim>\<open>maxlength\<close>, \<^verbatim>\<open>enum\<close>, \<^verbatim>\<open>default\<close>, \<^verbatim>\<open>unique\<close>, \<^verbatim>\<open>timestamps\<close>) applied
  where Mongoose applies them.
\<close>

subsection \<open>Task status enum (models/Task.ts)\<close>

definition TODO :: string where "TODO = ''To do''"
definition IN_PROGRESS :: string where "IN_PROGRESS = ''In Progress''"
definition DONE :: string where "DONE = ''Done''"
definition ARCHIVED :: string where "ARCHIVED = ''Archived''"

text \<open>\<^verbatim>\<open>Object.values(TaskStatus)\<close>\<close>

definition TaskStatus_values :: "string list" where
  "TaskStatus_values = [TODO, IN_PROGRESS, DONE, ARCHIVED]"

subsection \<open>Documents and the store\<close>

text \<open>\<^verbatim>\<open>ITask\<close>; the field \<open>oid\<close> is the document's \<^verbatim>\<open>_id\<close>, kept as the 24 lower-case
  hexadecimal digits of the ObjectId.\<close>

record ITask =
  oid :: string
  title :: string
  description :: string
  status :: string
  userId :: string
  createdAt :: int
  updatedAt :: int

text \<open>\<^verbatim>\<open>IUser\<close>\<close>

record IUser =
  user_userId :: string
  user_createdAt :: int

record db =
  tasks :: "ITask list"
  users :: "IUser list"

text \<open>What the environment supplies to a write: the clock (\<^verbatim>\<open>Date.now\<close>) and the
  ObjectId the driver generates for a new document.\<close>

record env =
  now :: int
  newId :: string

subsection \<open>Errors and replies\<close>

text \<open>A thrown JavaScript error, as far as the error handler reads it: \<^verbatim>\<open>error.name\<close>,
  \<^verbatim>\<open>error.statusCode\<close> (\<open>None\<close> when the property is absent) and \<^verbatim>\<open>error.message\<close>.\<close>

record js_error =
  name :: string
  statusCode :: "nat option"
  message :: string

text \<open>Modelled from the spec: \<^verbatim>\<open>src/utils/errors.ts\<close>, which declares the classes
  \<^verbatim>\<open>NotFoundError\<close> and \<^verbatim>\<open>ValidationError\<close>, is missing. The spec (4.3) maps
  \<^verbatim>\<open>NotFound\<close> to 404 and \<^verbatim>\<open>ValidationError\<close> to 400; the tests, which run without
  the error handler of \<^verbatim>\<open>index.ts\<close>, expect the same codes, so the two classes carry
  them in \<^verbatim>\<open>statusCode\<close>. The names are the class names.\<close>

definition NotFoundError :: "string \<Rightarrow> js_error" where
  "NotFoundError msg = \<lparr>name = ''NotFoundError'', statusCode = Some 404, message = msg\<rparr>"

text \<open>Modelled from the spec: the \<^verbatim>\<open>ValidationError\<close> class of the missing
  \<^verbatim>\<open>src/utils/errors.ts\<close>, with status code 400 (spec 4.3).\<close>

definition ValidationError :: "string \<Rightarrow> js_error" where
  "ValidationError msg = \<lparr>name = ''ValidationError'', statusCode = Some 400, message = msg\<rparr>"

text \<open>Errors of the libraries: Mongoose's \<^verbatim>\<open>CastError\<close> (a value that is no ObjectId) and
  \<^verbatim>\<open>ValidationError\<close> (a schema validator failed), the driver's \<^verbatim>\<open>MongoServerError\<close>
  (duplicate key, rejected query option) and Fastify's schema validation error (a plain
  \<^verbatim>\<open>Error\<close> with \<^verbatim>\<open>statusCode\<close> 400). Only the last one has a \<^verbatim>\<open>statusCode\<close>.\<close>

definition CastError :: "string \<Rightarrow> js_error" where
  "CastError v = \<lparr>name = ''CastError'', statusCode = None,
     message = ''Cast to ObjectId failed for value '' @ v\<rparr>"

definition MongooseValidationError :: "string \<Rightarrow> js_error" where
  "MongooseValidationError msg = \<lparr>name = ''ValidationError'', statusCode = None, message = msg\<rparr>"

definition MongoServerError :: "string \<Rightarrow> js_error" where
  "MongoServerError msg = \<lparr>name = ''MongoServerError'', statusCode = None, message = msg\<rparr>"

definition FastifyValidationError :: "string \<Rightarrow> js_error" where
  "FastifyValidationError msg = \<lparr>name = ''Error'', statusCode = Some 400, message = msg\<rparr>"

text \<open>A JavaScript number as the list handler produces it: a double whose value is an
  integer (\<open>Num\<close>), \<^verbatim>\<open>NaN\<close>, \<^verbatim>\<open>Infinity\<close> or \<^verbatim>\<open>-Infinity\<close>. The two zeros are
  one value here; nothing the handler sends tells them apart.\<close>

datatype number = Num int | NaN | Infinity | NegInfinity

record pagination =
  page :: number
  limit :: number
  total :: nat
  totalPages :: number

datatype payload =
    NoBody
  | TaskBody ITask
  | ListBody "ITask list" pagination
  | ErrorBody string string

record reply =
  code :: nat
  body :: payload

subsection \<open>Requests\<close>

text \<open>The bodies of POST and PATCH. \<open>c_other\<close> and \<open>u_other\<close> hold the keys of the JSON
  body that the interfaces do not declare (for example \<^verbatim>\<open>userId\<close>), with their values.\<close>

record CreateTaskBody =
  c_title :: "string option"
  c_description :: "string option"
  c_status :: "string option"
  c_other :: "(string \<times> string) list"

record UpdateTaskBody =
  u_title :: "string option"
  u_description :: "string option"
  u_status :: "string option"
  u_other :: "(string \<times> string) list"

record RawQueryParams =
  q_status :: "string option"
  q_page :: "string option"
  q_limit :: "string option"

section \<open>Strings and numbers of the platform\<close>

text \<open>\<^verbatim>\<open>String.prototype.trim\<close>, on ASCII white space.\<close>

definition isSpace :: "char \<Rightarrow> bool" where
  "isSpace c \<longleftrightarrow> c \<in> set [CHR '' '', CHR 0x09, CHR 0x0A, CHR 0x0B, CHR 0x0C, CHR 0x0D]"

definition trim :: "string \<Rightarrow> string" where
  "trim s = rev (dropWhile isSpace (rev (dropWhile isSpace s)))"

definition digits :: "(char \<times> int) list" where
  "digits = zip ''0123456789'' [0, 1, 2, 3, 4, 5, 6, 7, 8, 9]"

definition isDigit :: "char \<Rightarrow> bool" where
  "isDigit c \<longleftrightarrow> map_of digits c \<noteq> None"

definition digitValue :: "char \<Rightarrow> int" where
  "digitValue c = (case map_of digits c of Some d \<Rightarrow> d | None \<Rightarrow> 0)"

text \<open>The number of binary digits of a positive integer.\<close>

function bit_length :: "int \<Rightarrow> nat" where
  "bit_length n = (if n \<le> 0 then 0 else Suc (bit_length (n div 2)))"
  by pat_completeness auto
termination
  by (relation "measure nat") auto

declare bit_length.simps [simp del]

text \<open>The Number value of a mathematical integer: the nearest double, ties to the even
  significand (53 binary digits), and an infinity from \<open>2^1024\<close> on. Every integer up
  to \<open>2^53\<close> in absolute value is its own Number value.\<close>

definition toNumber :: "int \<Rightarrow> number" where
  "toNumber n =
     (if \<bar>n\<bar> \<le> 2 ^ 53 then Num n
      else
        let a = \<bar>n\<bar>;
            e = bit_length a - 53;
            q = a div 2 ^ e;
            r = a mod 2 ^ e;
            q' = (if 2 ^ e < 2 * r \<or> 2 * r = 2 ^ e \<and> odd q then q + 1 else q);
            v = q' * 2 ^ e
        in if 2 ^ 1024 \<le> v then (if n < 0 then NegInfinity else Infinity)
           else Num (if n < 0 then - v else v))"

text \<open>\<^verbatim>\<open>parseInt(s, 10)\<close>: leading white space, an optional sign, then the longest run of
  decimal digits; \<^verbatim>\<open>NaN\<close> when there is no digit. The result is a double: the Number
  value of the integer the digits denote.\<close>

definition parseInt :: "string \<Rightarrow> number" where
  "parseInt s =
     (let s1 = dropWhile isSpace s;
          neg = (case s1 of c # _ \<Rightarrow> c = CHR ''-'' | [] \<Rightarrow> False);
          s2 = (case s1 of c # r \<Rightarrow> if c = CHR ''-'' \<or> c = CHR ''+'' then r else s1 | [] \<Rightarrow> s1);
          ds = takeWhile isDigit s2;
          n = foldl (\<lambda>a c. 10 * a + digitValue c) 0 ds
      in if ds = [] then NaN else toNumber (if neg then - n else n))"

text \<open>The ObjectId cast of Mongoose: a string of 24 hexadecimal digits is an ObjectId,
  read without regard to case; any other string is not (\<^verbatim>\<open>CastError\<close>).\<close>

definition isHexDigit :: "char \<Rightarrow> bool" where
  "isHexDigit c \<longleftrightarrow> c \<in> set ''0123456789abcdefABCDEF''"

definition lowerHex :: "char \<Rightarrow> char" where
  "lowerHex c = (case map_of (zip ''ABCDEF'' ''abcdef'') c of Some d \<Rightarrow> d | None \<Rightarrow> c)"

definition castObjectId :: "string \<Rightarrow> string option" where
  "castObjectId s =
     (if length s = 24 \<and> list_all isHexDigit s then Some (map lowerHex s) else None)"

section \<open>The Task model (models/Task.ts)\<close>

text \<open>The schema validators, run on the value after the setters (\<^verbatim>\<open>trim\<close>). Each gives the
  entry of its path in the validation error, path name and message of the first
  validator that fails. \<^verbatim>\<open>required\<close> on a string path rejects the empty string.\<close>

definition validate_title :: "string \<Rightarrow> string option" where
  "validate_title v =
     (if v = [] then Some ''title: Title is required''
      else if length v > 200 then Some ''title: Title cannot exceed 200 characters''
      else None)"

definition validate_description :: "string \<Rightarrow> string option" where
  "validate_description v =
     (if v = [] then Some ''description: Description is required''
      else if length v > 2000
      then Some ''description: Description cannot exceed 2000 characters''
      else None)"

definition validate_status :: "string \<Rightarrow> string option" where
  "validate_status v =
     (if v = [] then Some ''status: Path `status` is required.''
      else if v \<notin> set TaskStatus_values
      then Some (''status: `'' @ v @ ''` is not a valid enum value for path `status`.'')
      else None)"

definition validate_userId :: "string \<Rightarrow> string option" where
  "validate_userId v = (if v = [] then Some ''userId: User ID is required'' else None)"

definition failures :: "string option list \<Rightarrow> string list" where
  "failures rs = List.map_filter (\<lambda>r. r) rs"

text \<open>The message of a validation error lists the entries of all failing paths.\<close>

fun joined :: "string list \<Rightarrow> string" where
  "joined [] = []"
| "joined [m] = m"
| "joined (m # ms) = m @ '', '' @ joined ms"

text \<open>The filter \<^verbatim>\<open>{ _id: id, userId }\<close> on a document, the identifier already cast.\<close>

definition owned :: "string \<Rightarrow> string \<Rightarrow> ITask \<Rightarrow> bool" where
  "owned i u t \<longleftrightarrow> oid t = i \<and> userId t = u"

text \<open>\<^verbatim>\<open>Task.findOne({ _id: id, userId }).lean()\<close>\<close>

definition Task_findOne :: "db \<Rightarrow> string \<Rightarrow> string \<Rightarrow> js_error + ITask option" where
  "Task_findOne st ident u =
     (case castObjectId ident of
        None \<Rightarrow> Inl (CastError ident)
      | Some i \<Rightarrow> Inr (find (owned i u) (tasks st)))"

text \<open>\<^verbatim>\<open>Task.create({ title, description, status, userId })\<close>: setters, the default of
  \<^verbatim>\<open>status\<close>, the validators, then the insert. \<^verbatim>\<open>_id\<close> has a unique index, and
  \<^verbatim>\<open>timestamps: true\<close> sets both timestamps to the clock.\<close>

definition Task_create ::
    "env \<Rightarrow> db \<Rightarrow> string \<Rightarrow> string \<Rightarrow> string option \<Rightarrow> string \<Rightarrow> (js_error + ITask) \<times> db" where
  "Task_create e st ttl descr stat uid =
     (let t = trim ttl; d = trim descr;
          s = (case stat of None \<Rightarrow> TODO | Some v \<Rightarrow> v)
      in case failures [validate_title t, validate_description d, validate_status s,
                        validate_userId uid] of
           m # ms \<Rightarrow>
             (Inl (MongooseValidationError (''Task validation failed: '' @ joined (m # ms))), st)
         | [] \<Rightarrow>
             if newId e \<in> set (map oid (tasks st))
             then (Inl (MongoServerError ''E11000 duplicate key error''), st)
             else
               let task = \<lparr>oid = newId e, title = t, description = d, status = s,
                            userId = uid, createdAt = now e, updatedAt = now e\<rparr>
               in (Inr task, st\<lparr>tasks := tasks st @ [task]\<rparr>))"

text \<open>\<^verbatim>\<open>Partial<UpdateTaskBody>\<close>, the object the PATCH handler builds; a field is a key
  of the object when it is not \<open>None\<close>.\<close>

record updateData =
  set_title :: "string option"
  set_description :: "string option"
  set_status :: "string option"

definition keys :: "updateData \<Rightarrow> string list" where
  "keys d =
     (case set_title d of None \<Rightarrow> [] | Some _ \<Rightarrow> [''title'']) @
     (case set_description d of None \<Rightarrow> [] | Some _ \<Rightarrow> [''description'']) @
     (case set_status d of None \<Rightarrow> [] | Some _ \<Rightarrow> [''status''])"

text \<open>\<^verbatim>\<open>{ $set: updateData }\<close> on one document; \<^verbatim>\<open>timestamps: true\<close> adds
  \<^verbatim>\<open>updatedAt\<close> to the \<^verbatim>\<open>$set\<close>.\<close>

definition apply_set :: "env \<Rightarrow> updateData \<Rightarrow> ITask \<Rightarrow> ITask" where
  "apply_set e d t =
     t\<lparr>title := (case set_title d of None \<Rightarrow> title t | Some v \<Rightarrow> v),
       description := (case set_description d of None \<Rightarrow> description t | Some v \<Rightarrow> v),
       status := (case set_status d of None \<Rightarrow> status t | Some v \<Rightarrow> v),
       updatedAt := now e\<rparr>"

fun update_first :: "('a \<Rightarrow> bool) \<Rightarrow> ('a \<Rightarrow> 'a) \<Rightarrow> 'a list \<Rightarrow> 'a list" where
  "update_first P f [] = []"
| "update_first P f (x # xs) = (if P x then f x # xs else x # update_first P f xs)"

fun remove_first :: "('a \<Rightarrow> bool) \<Rightarrow> 'a list \<Rightarrow> 'a list" where
  "remove_first P [] = []"
| "remove_first P (x # xs) = (if P x then xs else x # remove_first P xs)"

text \<open>\<^verbatim>\<open>Task.findOneAndUpdate({ _id: id, userId }, { $set: updateData },
  { new: true, runValidators: true })\<close>: the filter is cast, the update is cast (setters)
  and validated on the paths it sets, then the first matching document is updated and
  returned as updated.\<close>

definition Task_findOneAndUpdate ::
    "env \<Rightarrow> db \<Rightarrow> string \<Rightarrow> string \<Rightarrow> updateData \<Rightarrow> (js_error + ITask option) \<times> db" where
  "Task_findOneAndUpdate e st ident u d =
     (case castObjectId ident of
        None \<Rightarrow> (Inl (CastError ident), st)
      | Some i \<Rightarrow>
          let d' = d\<lparr>set_title := map_option trim (set_title d),
                     set_description := map_option trim (set_description d)\<rparr>
          in case failures [Option.bind (set_title d') validate_title,
                            Option.bind (set_description d') validate_description,
                            Option.bind (set_status d') validate_status] of
               m # ms \<Rightarrow>
                 (Inl (MongooseValidationError (''Validation failed: '' @ joined (m # ms))), st)
             | [] \<Rightarrow>
                 (case find (owned i u) (tasks st) of
                    None \<Rightarrow> (Inr None, st)
                  | Some t \<Rightarrow>
                      (Inr (Some (apply_set e d' t)),
                       st\<lparr>tasks := update_first (owned i u) (apply_set e d') (tasks st)\<rparr>)))"

text \<open>\<^verbatim>\<open>Task.findOneAndDelete({ _id: id, userId })\<close>\<close>

definition Task_findOneAndDelete ::
    "db \<Rightarrow> string \<Rightarrow> string \<Rightarrow> (js_error + ITask option) \<times> db" where
  "Task_findOneAndDelete st ident u =
     (case castObjectId ident of
        None \<Rightarrow> (Inl (CastError ident), st)
      | Some i \<Rightarrow>
          (case find (owned i u) (tasks st) of
             None \<Rightarrow> (Inr None, st)
           | Some t \<Rightarrow> (Inr (Some t), st\<lparr>tasks := remove_first (owned i u) (tasks st)\<rparr>)))"

text \<open>The filter of the list handler, \<^verbatim>\<open>{ userId, status? }\<close>.\<close>

record task_query =
  fq_userId :: string
  fq_status :: "string option"

definition matches :: "task_query \<Rightarrow> ITask \<Rightarrow> bool" where
  "matches q t \<longleftrightarrow>
     userId t = fq_userId q \<and> (case fq_status q of None \<Rightarrow> True | Some s \<Rightarrow> status t = s)"

text \<open>\<^verbatim>\<open>Task.countDocuments(query)\<close>\<close>

definition Task_countDocuments :: "db \<Rightarrow> task_query \<Rightarrow> nat" where
  "Task_countDocuments st q = length (filter (matches q) (tasks st))"

text \<open>\<^verbatim>\<open>Task.find(query).sort({ createdAt: -1 }).skip(skip).limit(limit).lean()\<close>. The
  store rejects a skip that is negative and a skip or limit that is \<^verbatim>\<open>NaN\<close> or an
  infinity; a limit of 0 is no limit, a negative limit is its absolute value. Documents with equal
  \<^verbatim>\<open>createdAt\<close> are kept in insertion order here (the store leaves their order open).\<close>

definition Task_find :: "db \<Rightarrow> task_query \<Rightarrow> number \<Rightarrow> number \<Rightarrow> js_error + ITask list" where
  "Task_find st q skip lmt =
     (case (skip, lmt) of
        (Num s, Num l) \<Rightarrow>
          if s < 0 then Inl (MongoServerError ''Skip value must be non-negative'')
          else
            let found = sort_key (\<lambda>t. - createdAt t) (filter (matches q) (tasks st));
                rest = drop (nat s) found
            in Inr (if l = 0 then rest else take (nat \<bar>l\<bar>) rest)
      | _ \<Rightarrow> Inl (MongoServerError ''skip and limit must be integers''))"

section \<open>The User model (models/User.ts)\<close>

text \<open>\<^verbatim>\<open>User.findOne({ userId })\<close>; the setter \<^verbatim>\<open>trim\<close> of the path runs on the filter
  value.\<close>

definition User_findOne :: "db \<Rightarrow> string \<Rightarrow> IUser option" where
  "User_findOne st uid = find (\<lambda>u. user_userId u = trim uid) (users st)"

text \<open>\<^verbatim>\<open>User.create({ userId })\<close>: \<^verbatim>\<open>userId\<close> is trimmed, required and unique, and
  \<^verbatim>\<open>createdAt\<close> defaults to the clock.\<close>

definition User_create :: "env \<Rightarrow> db \<Rightarrow> string \<Rightarrow> (js_error + IUser) \<times> db" where
  "User_create e st uid =
     (let v = trim uid
      in if v = []
         then (Inl (MongooseValidationError
                      ''User validation failed: userId: Path `userId` is required.''), st)
         else if v \<in> set (map user_userId (users st))
         then (Inl (MongoServerError ''E11000 duplicate key error''), st)
         else
           let user = \<lparr>user_userId = v, user_createdAt = now e\<rparr>
           in (Inr user, st\<lparr>users := users st @ [user]\<rparr>))"

section \<open>The identity resolver (middleware/auth.ts)\<close>

definition unauthorized :: reply where
  "unauthorized = \<lparr>code = 401, body = ErrorBody ''Unauthorized'' ''x-user-id header is required''\<rparr>"

definition auth_failed :: reply where
  "auth_failed =
     \<lparr>code = 500, body = ErrorBody ''Internal Server Error'' ''Failed to authenticate user''\<rparr>"

text \<open>\<^verbatim>\<open>authMiddleware\<close>. The header is \<open>None\<close> when the request has no \<^verbatim>\<open>x-user-id\<close>.
  The result is either the reply the hook sends itself (\<open>Inl\<close>; the route handler
  does not run) or the token bound to \<^verbatim>\<open>request.userId\<close> (\<open>Inr\<close>). The lookup and the
  create are two store calls: \<open>others\<close> is what other requests write to the store
  between them (the identity function when there is none). Any error thrown inside
  the \<^verbatim>\<open>try\<close> block reaches the \<^verbatim>\<open>catch\<close>.\<close>

definition authMiddleware ::
    "env \<Rightarrow> (db \<Rightarrow> db) \<Rightarrow> db \<Rightarrow> string option \<Rightarrow> (reply + string) \<times> db" where
  "authMiddleware e others st header =
     (case header of
        None \<Rightarrow> (Inl unauthorized, st)
      | Some uid \<Rightarrow>
          if uid = [] then (Inl unauthorized, st)
          else
            (case User_findOne st uid of
               Some user \<Rightarrow> (Inr uid, st)
             | None \<Rightarrow>
                 (case User_create e (others st) uid of
                    (Inl err, st') \<Rightarrow> (Inl auth_failed, st')
                  | (Inr user, st') \<Rightarrow> (Inr uid, st'))))"

section \<open>The route handlers (routes/tasks.ts)\<close>

text \<open>A handler returns a reply or throws (\<open>Inl\<close>); a handler that writes returns the
  store as well. \<open>uid\<close> is \<^verbatim>\<open>request.userId\<close>.\<close>

text \<open>JavaScript truthiness of an optional string.\<close>

definition truthy :: "string option \<Rightarrow> bool" where
  "truthy v \<longleftrightarrow> (case v of None \<Rightarrow> False | Some s \<Rightarrow> s \<noteq> [])"

text \<open>Double arithmetic on these numbers. A difference or product of two integer-valued
  doubles is the Number value of the exact result; \<^verbatim>\<open>NaN\<close> stays \<^verbatim>\<open>NaN\<close>; an
  infinity times zero is \<^verbatim>\<open>NaN\<close>, times anything else an infinity of the product's
  sign.\<close>

definition js_minus_one :: "number \<Rightarrow> number" where
  "js_minus_one x = (case x of Num a \<Rightarrow> toNumber (a - 1) | _ \<Rightarrow> x)"

definition sign_of :: "number \<Rightarrow> int" where
  "sign_of x = (case x of Num a \<Rightarrow> sgn a | NaN \<Rightarrow> 0 | Infinity \<Rightarrow> 1 | NegInfinity \<Rightarrow> - 1)"

definition js_times :: "number \<Rightarrow> number \<Rightarrow> number" where
  "js_times x y =
     (case (x, y) of
        (Num a, Num b) \<Rightarrow> toNumber (a * b)
      | _ \<Rightarrow>
          if x = NaN \<or> y = NaN \<or> sign_of x * sign_of y = 0 then NaN
          else if 0 < sign_of x * sign_of y then Infinity
          else NegInfinity)"

text \<open>\<^verbatim>\<open>(page - 1) * limit\<close>\<close>

definition skip_of :: "number \<Rightarrow> number \<Rightarrow> number" where
  "skip_of p l = js_times (js_minus_one p) l"

text \<open>\<^verbatim>\<open>Math.ceil(total / limit)\<close>, \<open>total\<close> being a document count. A count divided by
  zero is \<^verbatim>\<open>Infinity\<close> (\<^verbatim>\<open>NaN\<close> for the count 0), divided by an infinity it is zero.
  Otherwise the ceiling is taken of the exact quotient, which is the ceiling of the
  double quotient as long as the count is below \<open>2^53\<close> and the limit is positive.\<close>

definition ceil_div :: "nat \<Rightarrow> number \<Rightarrow> number" where
  "ceil_div n l =
     (case l of
        Num b \<Rightarrow>
          if b = 0 then (if n = 0 then NaN else Infinity)
          else Num (- ((- int n) div b))
      | NaN \<Rightarrow> NaN
      | _ \<Rightarrow> Num 0)"

text \<open>GET /tasks. The route's querystring schema (\<^verbatim>\<open>status\<close> in the enum) is checked
  by the framework before the handler runs.\<close>

definition get_tasks :: "db \<Rightarrow> string \<Rightarrow> RawQueryParams \<Rightarrow> js_error + reply" where
  "get_tasks st uid query =
     (if (case q_status query of None \<Rightarrow> False | Some s \<Rightarrow> s \<notin> set TaskStatus_values)
      then Inl (FastifyValidationError
                  ''querystring/status must be equal to one of the allowed values'')
      else
        let pageParam = (case q_page query of None \<Rightarrow> ''1'' | Some v \<Rightarrow> v);
            limitParam = (case q_limit query of None \<Rightarrow> ''50'' | Some v \<Rightarrow> v);
            pg = parseInt pageParam;
            lmt = parseInt limitParam;
            q = \<lparr>fq_userId = uid,
                 fq_status = (if truthy (q_status query) then q_status query else None)\<rparr>;
            skip = skip_of pg lmt
        in case Task_find st q skip lmt of
             Inl err \<Rightarrow> Inl err
           | Inr found \<Rightarrow>
               let n = Task_countDocuments st q
               in Inr \<lparr>code = 200,
                       body = ListBody found
                         \<lparr>page = pg, limit = lmt, total = n, totalPages = ceil_div n lmt\<rparr>\<rparr>)"

definition invalid_id :: reply where
  "invalid_id = \<lparr>code = 400, body = ErrorBody ''Validation Error'' ''Invalid task ID format''\<rparr>"

text \<open>GET /tasks/:id. The \<^verbatim>\<open>catch\<close> answers a \<^verbatim>\<open>CastError\<close> itself and rethrows
  anything else, the \<^verbatim>\<open>NotFoundError\<close> of the \<^verbatim>\<open>try\<close> block included.\<close>

definition get_task :: "db \<Rightarrow> string \<Rightarrow> string \<Rightarrow> js_error + reply" where
  "get_task st uid ident =
     (let attempt =
            (case Task_findOne st ident uid of
               Inl err \<Rightarrow> Inl err
             | Inr None \<Rightarrow> Inl (NotFoundError ''Task not found'')
             | Inr (Some task) \<Rightarrow> Inr \<lparr>code = 200, body = TaskBody task\<rparr>)
      in case attempt of
           Inl err \<Rightarrow> if name err = ''CastError'' then Inr invalid_id else Inl err
         | Inr r \<Rightarrow> Inr r)"

text \<open>POST /tasks\<close>

definition post_task ::
    "env \<Rightarrow> db \<Rightarrow> string \<Rightarrow> CreateTaskBody \<Rightarrow> (js_error + reply) \<times> db" where
  "post_task e st uid b =
     (let stat = (case c_status b of None \<Rightarrow> TODO | Some v \<Rightarrow> v)
      in if \<not> truthy (c_title b) \<or> \<not> truthy (c_description b)
         then (Inl (ValidationError ''Title and description are required''), st)
         else if stat \<noteq> [] \<and> stat \<notin> set TaskStatus_values
         then (Inl (ValidationError (''Invalid status: '' @ stat)), st)
         else
           (case Task_create e st (case c_title b of Some v \<Rightarrow> v | None \<Rightarrow> [])
                   (case c_description b of Some v \<Rightarrow> v | None \<Rightarrow> []) (Some stat) uid of
              (Inl err, st') \<Rightarrow> (Inl err, st')
            | (Inr task, st') \<Rightarrow> (Inr \<lparr>code = 201, body = TaskBody task\<rparr>, st')))"

text \<open>PATCH /tasks/:id\<close>

definition patch_task ::
    "env \<Rightarrow> db \<Rightarrow> string \<Rightarrow> string \<Rightarrow> UpdateTaskBody \<Rightarrow> (js_error + reply) \<times> db" where
  "patch_task e st uid ident b =
     (if truthy (u_status b) \<and> (case u_status b of Some v \<Rightarrow> v \<notin> set TaskStatus_values | None \<Rightarrow> False)
      then (Inl (ValidationError
                   (''Invalid status: '' @ (case u_status b of Some v \<Rightarrow> v | None \<Rightarrow> []))), st)
      else
        let d = \<lparr>set_title = u_title b, set_description = u_description b,
                 set_status = u_status b\<rparr>
        in if length (keys d) = 0
           then (Inl (ValidationError ''No valid fields provided for update''), st)
           else
             (case Task_findOneAndUpdate e st ident uid d of
                (Inl err, st') \<Rightarrow> (Inl err, st')
              | (Inr None, st') \<Rightarrow> (Inl (NotFoundError ''Task not found''), st')
              | (Inr (Some task), st') \<Rightarrow> (Inr \<lparr>code = 200, body = TaskBody task\<rparr>, st')))"

text \<open>DELETE /tasks/:id\<close>

definition delete_task :: "db \<Rightarrow> string \<Rightarrow> string \<Rightarrow> (js_error + reply) \<times> db" where
  "delete_task st uid ident =
     (case Task_findOneAndDelete st ident uid of
        (Inl err, st') \<Rightarrow> (Inl err, st')
      | (Inr None, st') \<Rightarrow> (Inl (NotFoundError ''Task not found''), st')
      | (Inr (Some task), st') \<Rightarrow> (Inr \<lparr>code = 204, body = NoBody\<rparr>, st'))"

section \<open>The error handler (index.ts)\<close>

text \<open>\<^verbatim>\<open>fastify.setErrorHandler\<close>: \<^verbatim>\<open>error.statusCode || 500\<close>, then the two names it
  knows.\<close>

definition setErrorHandler :: "js_error \<Rightarrow> reply" where
  "setErrorHandler error =
     (let statusCode0 = (case statusCode error of None \<Rightarrow> 500 | Some c \<Rightarrow> if c = 0 then 500 else c);
          statusCode1 = (if name error = ''CastError'' then 400
                         else if name error = ''ValidationError'' then 400
                         else statusCode0);
          message1 = (if name error = ''CastError'' then ''Invalid task ID format''
                      else message error)
      in \<lparr>code = statusCode1,
          body = ErrorBody (if name error = [] then ''Internal Server Error'' else name error)
                   (if statusCode1 = 500 then ''An unexpected error occurred'' else message1)\<rparr>)"

definition respond :: "js_error + reply \<Rightarrow> reply" where
  "respond r = (case r of Inl err \<Rightarrow> setErrorHandler err | Inr rep \<Rightarrow> rep)"

section \<open>The five operations as the server answers them\<close>

datatype request =
    ListTasks RawQueryParams
  | GetTask string
  | CreateTask CreateTaskBody
  | UpdateTask string UpdateTaskBody
  | DeleteTask string

text \<open>One request of the resolved identity \<open>uid\<close>: the route handler, then the error
  handler for what it throws. The result is the reply and the store afterwards.\<close>

definition serve :: "env \<Rightarrow> db \<Rightarrow> string \<Rightarrow> request \<Rightarrow> reply \<times> db" where
  "serve e st uid r =
     (case r of
        ListTasks query \<Rightarrow> (respond (get_tasks st uid query), st)
      | GetTask ident \<Rightarrow> (respond (get_task st uid ident), st)
      | CreateTask b \<Rightarrow> (case post_task e st uid b of (res, st') \<Rightarrow> (respond res, st'))
      | UpdateTask ident b \<Rightarrow>
          (case patch_task e st uid ident b of (res, st') \<Rightarrow> (respond res, st'))
      | DeleteTask ident \<Rightarrow>
          (case delete_task st uid ident of (res, st') \<Rightarrow> (respond res, st')))"

definition not_found :: reply where
  "not_found = \<lparr>code = 404, body = ErrorBody ''NotFoundError'' ''Task not found''\<rparr>"

text \<open>The invariant of the task collection: \<^verbatim>\<open>_id\<close> is the unique key, and every
  stored \<^verbatim>\<open>_id\<close> is an ObjectId in its canonical form.\<close>

definition wf_db :: "db \<Rightarrow> bool" where
  "wf_db st \<longleftrightarrow>
     distinct (map oid (tasks st)) \<and>
     list_all (\<lambda>t. castObjectId (oid t) = Some (oid t)) (tasks st)"

text \<open>The driver generates ObjectIds.\<close>

definition wf_env :: "env \<Rightarrow> bool" where
  "wf_env e \<longleftrightarrow> castObjectId (newId e) = Some (newId e)"

text \<open>The task with a given \<^verbatim>\<open>_id\<close>, if the store has one, and its owner.\<close>

definition lookup :: "db \<Rightarrow> string \<Rightarrow> ITask option" where
  "lookup st i = find (\<lambda>t. oid t = i) (tasks st)"

definition owner :: "db \<Rightarrow> string \<Rightarrow> string option" where
  "owner st i = map_option userId (lookup st i)"

subsection \<open>A small store for the concrete instances\<close>

definition task_a :: ITask where
  "task_a = \<lparr>oid = ''507f1f77bcf86cd799439011'', title = ''A'', description = ''B'',
     status = ''To do'', userId = ''u1'', createdAt = 10, updatedAt = 10\<rparr>"

definition task_b :: ITask where
  "task_b = \<lparr>oid = ''507f1f77bcf86cd799439012'', title = ''C'', description = ''D'',
     status = ''Done'', userId = ''u1'', createdAt = 20, updatedAt = 20\<rparr>"

definition store0 :: db where
  "store0 = \<lparr>tasks = [task_a, task_b], users = []\<rparr>"

definition env0 :: env where
  "env0 = \<lparr>now = 30, newId = ''507f1f77bcf86cd799439013''\<rparr>"

text \<open>An empty store, and the write of another request that registers the token
  \<^verbatim>\<open>u1\<close>.\<close>

definition no_users :: db where
  "no_users = \<lparr>tasks = [], users = []\<rparr>"

definition signup_u1 :: "db \<Rightarrow> db" where
  "signup_u1 st = st\<lparr>users := users st @ [\<lparr>user_userId = ''u1'', user_createdAt = 5\<rparr>]\<rparr>"

section \<open>What the error handler answers\<close>

lemma respond_NotFoundError:
  "respond (Inl (NotFoundError m)) = \<lparr>code = 404, body = ErrorBody ''NotFoundError'' m\<rparr>"
  by (simp add: respond_def setErrorHandler_def NotFoundError_def)

lemma respond_ValidationError:
  "respond (Inl (ValidationError m)) = \<lparr>code = 400, body = ErrorBody ''ValidationError'' m\<rparr>"
  by (simp add: respond_def setErrorHandler_def ValidationError_def)

lemma respond_MongooseValidationError:
  "respond (Inl (MongooseValidationError m)) =
     \<lparr>code = 400, body = ErrorBody ''ValidationError'' m\<rparr>"
  by (simp add: respond_def setErrorHandler_def MongooseValidationError_def)

lemma respond_CastError:
  "respond (Inl (CastError v)) =
     \<lparr>code = 400, body = ErrorBody ''CastError'' ''Invalid task ID format''\<rparr>"
  by (simp add: respond_def setErrorHandler_def CastError_def)

lemma respond_MongoServerError:
  "respond (Inl (MongoServerError m)) =
     \<lparr>code = 500, body = ErrorBody ''MongoServerError'' ''An unexpected error occurred''\<rparr>"
  by (simp add: respond_def setErrorHandler_def MongoServerError_def)

lemma respond_Inr: "respond (Inr r) = r"
  by (simp add: respond_def)

lemmas respond_simps = respond_NotFoundError respond_ValidationError
  respond_MongooseValidationError respond_CastError respond_MongoServerError respond_Inr

section \<open>Lookups in the task collection\<close>

lemma find_owned_None:
  "find (owned i u) ts = None \<longleftrightarrow> (\<forall>t\<in>set ts. \<not> (oid t = i \<and> userId t = u))"
  by (induction ts) (auto simp: owned_def)

lemma find_owned_Some: "find (owned j u) ts = Some t \<Longrightarrow> t \<in> set ts \<and> oid t = j \<and> userId t = u"
  by (induction ts) (auto simp: owned_def split: if_splits)

lemma find_oid_None: "find (\<lambda>t. oid t = i) ts = None \<longleftrightarrow> i \<notin> set (map oid ts)"
  by (induction ts) auto

lemma find_oid_Some: "find (\<lambda>t. oid t = i) ts = Some t \<Longrightarrow> t \<in> set ts \<and> oid t = i"
  by (induction ts) (auto split: if_splits)

lemma find_append_cases:
  "find P (xs @ ys) = (case find P xs of None \<Rightarrow> find P ys | Some x \<Rightarrow> Some x)"
  by (induction xs) auto

lemma oid_inj:
  "distinct (map oid ts) \<Longrightarrow> t \<in> set ts \<Longrightarrow> t' \<in> set ts \<Longrightarrow> oid t' = oid t \<Longrightarrow> t' = t"
  by (meson distinct_map inj_onD)

lemma find_owned_other:
  assumes "distinct (map oid ts)" and "t \<in> set ts" and "userId t \<noteq> b"
  shows "find (owned (oid t) b) ts = None"
  unfolding find_owned_None using oid_inj [OF assms(1,2)] assms(3) by blast

lemma find_owned_remove1:
  assumes "distinct (map oid ts)" and "t \<in> set ts"
  shows "find (owned (oid t) b) (remove1 t ts) = None"
proof -
  have "t' \<noteq> t \<and> t' \<in> set ts" if "t' \<in> set (remove1 t ts)" for t'
  proof -
    from assms(1) have "distinct ts" by (rule distinct_map [THEN iffD1, THEN conjunct1])
    with that show ?thesis by simp
  qed
  with oid_inj [OF assms] show ?thesis
    unfolding find_owned_None by blast
qed

lemma find_remove_first:
  "distinct (map oid ts) \<Longrightarrow> find (owned i u) (remove_first (owned i u) ts) = None"
proof (induction ts)
  case Nil
  then show ?case by simp
next
  case (Cons x xs)
  show ?case
  proof (cases "owned i u x")
    case True
    with Cons.prems have "\<forall>y\<in>set xs. \<not> (oid y = i \<and> userId y = u)"
      by (force simp: owned_def)
    with True show ?thesis by (simp add: find_owned_None)
  next
    case False
    with Cons show ?thesis by simp
  qed
qed

lemma find_oid_remove_first:
  "distinct (map oid ts) \<Longrightarrow>
   find (\<lambda>t. oid t = i) (remove_first (owned j u) ts) =
     (if i = j \<and> find (owned j u) ts \<noteq> None then None else find (\<lambda>t. oid t = i) ts)"
proof (induction ts)
  case Nil
  then show ?case by simp
next
  case (Cons x xs)
  from Cons.prems have fresh: "oid x \<notin> set (map oid xs)" and d: "distinct (map oid xs)"
    by simp_all
  show ?case
  proof (cases "owned j u x")
    case True
    then have "oid x = j" by (simp add: owned_def)
    with fresh have "find (\<lambda>t. oid t = j) xs = None"
      by (simp add: find_oid_None)
    with True \<open>oid x = j\<close> show ?thesis by auto
  next
    case False
    show ?thesis
    proof (cases "oid x = i")
      case True
      have "find (owned j u) xs = None" if "i = j"
      proof (rule ccontr)
        assume "find (owned j u) xs \<noteq> None"
        then obtain y where "find (owned j u) xs = Some y" by blast
        then have y: "y \<in> set xs" and oy: "oid y = j" using find_owned_Some by blast+
        from y have "oid y \<in> set (map oid xs)" by simp
        with oy that True fresh show False by simp
      qed
      with True False show ?thesis by auto
    next
      case neq: False
      with False Cons.IH [OF d] show ?thesis by auto
    qed
  qed
qed

lemma map_update_first:
  "(\<And>x. g (f x) = g x) \<Longrightarrow> map g (update_first P f xs) = map g xs"
  by (induction xs) auto

text \<open>
  C5. For every existing task, an update request providing none of the fields title,
  description, or status fails with ValidationError (400) and leaves the task's stored
  record exactly unchanged. The request is any PATCH whose body has none of the three
  fields, by any identity on any identifier; the whole store comes back as it was, so
  every stored record does.
\<close>

lemma find_oid_update_first:
  "(\<And>x. oid (f x) = oid x) \<Longrightarrow> (\<And>x. userId (f x) = userId x) \<Longrightarrow>
   map_option userId (find (\<lambda>t. oid t = i) (update_first P f ts)) =
   map_option userId (find (\<lambda>t. oid t = i) ts)"
  by (induction ts) auto

lemma oid_apply_set: "oid (apply_set e d t) = oid t"
  by (simp add: apply_set_def)

lemma set_remove_first: "set (remove_first P xs) \<subseteq> set xs"
  by (induction xs) auto

lemma distinct_remove_first:
  "distinct (map f xs) \<Longrightarrow> distinct (map f (remove_first P xs))"
proof (induction xs)
  case Nil
  then show ?case by simp
next
  case (Cons x xs)
  then show ?case using set_remove_first [of P xs] by auto
qed

section \<open>Each operation, case by case\<close>

text \<open>The reply and the store after each request, with the error handler applied to what
  the route handler throws.\<close>

lemma keys_empty:
  "keys d = [] \<longleftrightarrow> set_title d = None \<and> set_description d = None \<and> set_status d = None"
  by (simp add: keys_def split: option.splits)

lemma failures_nonempty: "Some m \<in> set rs \<Longrightarrow> failures rs \<noteq> []"
  by (induction rs) (auto simp: failures_def List.map_filter_simps split: option.splits)

lemma validate_status_invalid: "s \<notin> set TaskStatus_values \<Longrightarrow> \<exists>m. validate_status s = Some m"
  by (simp add: validate_status_def)

lemma TaskStatus_values_nonempty: "s \<in> set TaskStatus_values \<Longrightarrow> s \<noteq> []"
  by (auto simp: TaskStatus_values_def TODO_def IN_PROGRESS_def DONE_def ARCHIVED_def)

lemma serve_get_cases:
  "serve e st uid (GetTask ident) =
     (case castObjectId ident of
        None \<Rightarrow> (invalid_id, st)
      | Some i \<Rightarrow>
          (case find (owned i uid) (tasks st) of
             None \<Rightarrow> (not_found, st)
           | Some t \<Rightarrow> (\<lparr>code = 200, body = TaskBody t\<rparr>, st)))"
proof -
  have "name (NotFoundError m) \<noteq> ''CastError''" for m
    by (simp add: NotFoundError_def)
  moreover have "name (CastError v) = ''CastError''" for v
    by (simp add: CastError_def)
  ultimately show ?thesis
    by (simp add: serve_def get_task_def Task_findOne_def not_found_def respond_simps
         split: option.splits)
qed

lemma serve_delete_cases:
  "serve e st uid (DeleteTask ident) =
     (case castObjectId ident of
        None \<Rightarrow> (\<lparr>code = 400, body = ErrorBody ''CastError'' ''Invalid task ID format''\<rparr>, st)
      | Some i \<Rightarrow>
          (case find (owned i uid) (tasks st) of
             None \<Rightarrow> (not_found, st)
           | Some t \<Rightarrow> (\<lparr>code = 204, body = NoBody\<rparr>,
                        st\<lparr>tasks := remove_first (owned i uid) (tasks st)\<rparr>)))"
  by (simp add: serve_def delete_task_def Task_findOneAndDelete_def not_found_def respond_simps
       split: option.splits)

lemma serve_update_cases:
  "serve e st uid (UpdateTask ident b) =
     (if truthy (u_status b) \<and> (case u_status b of Some v \<Rightarrow> v \<notin> set TaskStatus_values | None \<Rightarrow> False)
      then (\<lparr>code = 400, body = ErrorBody ''ValidationError''
               (''Invalid status: '' @ (case u_status b of Some v \<Rightarrow> v | None \<Rightarrow> []))\<rparr>, st)
      else if u_title b = None \<and> u_description b = None \<and> u_status b = None
      then (\<lparr>code = 400, body = ErrorBody ''ValidationError''
               ''No valid fields provided for update''\<rparr>, st)
      else
        (case castObjectId ident of
           None \<Rightarrow> (\<lparr>code = 400, body = ErrorBody ''CastError'' ''Invalid task ID format''\<rparr>, st)
         | Some i \<Rightarrow>
             (case failures [Option.bind (map_option trim (u_title b)) validate_title,
                             Option.bind (map_option trim (u_description b)) validate_description,
                             Option.bind (u_status b) validate_status] of
                m # ms \<Rightarrow>
                  (\<lparr>code = 400, body = ErrorBody ''ValidationError''
                      (''Validation failed: '' @ joined (m # ms))\<rparr>, st)
              | [] \<Rightarrow>
                  (case find (owned i uid) (tasks st) of
                     None \<Rightarrow> (not_found, st)
                   | Some t \<Rightarrow>
                       (let d = \<lparr>set_title = map_option trim (u_title b),
                                 set_description = map_option trim (u_description b),
                                 set_status = u_status b\<rparr>
                        in (\<lparr>code = 200, body = TaskBody (apply_set e d t)\<rparr>,
                            st\<lparr>tasks := update_first (owned i uid) (apply_set e d) (tasks st)\<rparr>))))))"
  unfolding serve_def patch_task_def Task_findOneAndUpdate_def
  by (simp add: Let_def keys_empty respond_simps not_found_def
       split: option.splits list.splits)

lemma serve_create_cases:
  "serve e st uid (CreateTask b) =
     (let stat = (case c_status b of None \<Rightarrow> TODO | Some v \<Rightarrow> v);
          t = trim (case c_title b of Some v \<Rightarrow> v | None \<Rightarrow> []);
          d = trim (case c_description b of Some v \<Rightarrow> v | None \<Rightarrow> [])
      in if \<not> (truthy (c_title b) \<and> truthy (c_description b))
         then (\<lparr>code = 400, body = ErrorBody ''ValidationError''
                  ''Title and description are required''\<rparr>, st)
         else if stat \<noteq> [] \<and> stat \<notin> set TaskStatus_values
         then (\<lparr>code = 400, body = ErrorBody ''ValidationError'' (''Invalid status: '' @ stat)\<rparr>, st)
         else
           (case failures [validate_title t, validate_description d, validate_status stat,
                           validate_userId uid] of
              m # ms \<Rightarrow>
                (\<lparr>code = 400, body = ErrorBody ''ValidationError''
                    (''Task validation failed: '' @ joined (m # ms))\<rparr>, st)
            | [] \<Rightarrow>
                if newId e \<in> set (map oid (tasks st))
                then (\<lparr>code = 500, body = ErrorBody ''MongoServerError''
                         ''An unexpected error occurred''\<rparr>, st)
                else
                  (let task = \<lparr>oid = newId e, title = t, description = d, status = stat,
                                userId = uid, createdAt = now e, updatedAt = now e\<rparr>
                   in (\<lparr>code = 201, body = TaskBody task\<rparr>, st\<lparr>tasks := tasks st @ [task]\<rparr>))))"
  unfolding serve_def post_task_def Task_create_def
  by (simp add: Let_def respond_simps split: list.splits)

lemma serve_create_201:
  assumes "fst (serve e st uid (CreateTask b)) = \<lparr>code = 201, body = TaskBody t\<rparr>"
  shows "oid t = newId e \<and> userId t = uid \<and> newId e \<notin> set (map oid (tasks st)) \<and>
         snd (serve e st uid (CreateTask b)) = st\<lparr>tasks := tasks st @ [t]\<rparr>"
proof -
  from assms have c: "code (fst (serve e st uid (CreateTask b))) = 201" by simp
  have c1: "truthy (c_title b) \<and> truthy (c_description b)"
  proof (rule ccontr)
    assume "\<not> ?thesis"
    then have "code (fst (serve e st uid (CreateTask b))) = 400"
      by (simp add: serve_create_cases Let_def)
    with c show False by simp
  qed
  have c2: "\<not> ((case c_status b of None \<Rightarrow> TODO | Some v \<Rightarrow> v) \<noteq> [] \<and>
      (case c_status b of None \<Rightarrow> TODO | Some v \<Rightarrow> v) \<notin> set TaskStatus_values)"
  proof
    assume "(case c_status b of None \<Rightarrow> TODO | Some v \<Rightarrow> v) \<noteq> [] \<and>
      (case c_status b of None \<Rightarrow> TODO | Some v \<Rightarrow> v) \<notin> set TaskStatus_values"
    with c1 have "code (fst (serve e st uid (CreateTask b))) = 400"
      by (simp add: serve_create_cases Let_def)
    with c show False by simp
  qed
  have c3: "failures [validate_title (trim (case c_title b of Some v \<Rightarrow> v | None \<Rightarrow> [])),
      validate_description (trim (case c_description b of Some v \<Rightarrow> v | None \<Rightarrow> [])),
      validate_status (case c_status b of None \<Rightarrow> TODO | Some v \<Rightarrow> v),
      validate_userId uid] = []"
  proof (rule ccontr)
    assume "\<not> ?thesis"
    with c1 c2 have "code (fst (serve e st uid (CreateTask b))) = 400"
      by (simp add: serve_create_cases Let_def split: list.splits)
    with c show False by simp
  qed
  have c4: "newId e \<notin> set (map oid (tasks st))"
  proof
    assume "newId e \<in> set (map oid (tasks st))"
    with c1 c2 c3 have "code (fst (serve e st uid (CreateTask b))) = 500"
      by (simp add: serve_create_cases Let_def)
    with c show False by simp
  qed
  from c1 c2 c3 c4 assms show ?thesis
    by (auto simp: serve_create_cases Let_def)
qed

section \<open>The invariant of the store\<close>

text \<open>Every operation keeps \<^verbatim>\<open>_id\<close> unique and canonical, so every store the server
  reaches from an empty one satisfies \<open>wf_db\<close>.\<close>

lemma wf_db_serve:
  assumes "wf_db st" and "wf_env e"
  shows "wf_db (snd (serve e st uid r))"
proof (cases r)
  case (ListTasks q)
  with assms show ?thesis by (simp add: serve_def)
next
  case (GetTask ident)
  with assms show ?thesis by (simp add: serve_def)
next
  case (CreateTask b)
  have "wf_db (st\<lparr>tasks := tasks st @ [t]\<rparr>)"
    if "oid t = newId e" and "newId e \<notin> set (map oid (tasks st))" for t
    using that assms by (simp add: wf_db_def wf_env_def)
  with assms(1) CreateTask show ?thesis
    by (simp add: serve_create_cases Let_def split: list.splits)
next
  case (UpdateTask ident b)
  have "map oid (update_first P (apply_set e d) ts) = map oid ts" for P d ts
    by (rule map_update_first) (rule oid_apply_set)
  moreover have "list_all Q (update_first P f ts)"
    if "list_all Q ts" and "\<And>x. Q x \<Longrightarrow> Q (f x)" for Q :: "ITask \<Rightarrow> bool" and P f ts
    using that by (induction ts) auto
  ultimately have "wf_db (st\<lparr>tasks := update_first P (apply_set e d) (tasks st)\<rparr>)" for P d
    using assms(1) by (simp add: wf_db_def oid_apply_set)
  with assms(1) UpdateTask show ?thesis
    by (simp add: serve_update_cases Let_def split: option.splits list.splits)
next
  case (DeleteTask ident)
  have "list_all Q (remove_first P ts)" if "list_all Q ts" for Q :: "ITask \<Rightarrow> bool" and P ts
    using that set_remove_first [of P ts] by (auto simp: list_all_iff)
  with assms(1) have "wf_db (st\<lparr>tasks := remove_first P (tasks st)\<rparr>)" for P
    by (simp add: wf_db_def distinct_remove_first)
  with assms(1) DeleteTask show ?thesis
    by (simp add: serve_delete_cases split: option.splits)
qed

lemma cast_task_a: "castObjectId ''507f1f77bcf86cd799439011'' = Some ''507f1f77bcf86cd799439011''"
  by (simp add: castObjectId_def isHexDigit_def lowerHex_def)

lemma cast_task_b: "castObjectId ''507f1f77bcf86cd799439012'' = Some ''507f1f77bcf86cd799439012''"
  by (simp add: castObjectId_def isHexDigit_def lowerHex_def)

lemma cast_invalid_id: "castObjectId ''invalid-id'' = None"
  by (simp add: castObjectId_def)

lemma wf_store0: "wf_db store0"
  by (simp add: wf_db_def store0_def task_a_def task_b_def cast_task_a cast_task_b)

lemma wf_no_users: "wf_db no_users"
  by (simp add: wf_db_def no_users_def)

section \<open>Ownership\<close>

lemma owner_after_serve:
  assumes "wf_db st" and "owner st i = Some a"
  shows "owner (snd (serve e st uid r)) i = Some a \<or>
         owner (snd (serve e st uid r)) i = None \<and> uid = a \<and> (\<exists>ident. r = DeleteTask ident)"
proof (cases r)
  case (ListTasks q)
  with assms(2) show ?thesis by (simp add: serve_def)
next
  case (GetTask ident)
  with assms(2) show ?thesis by (simp add: serve_def)
next
  case (CreateTask b)
  from assms(2) have "owner (st\<lparr>tasks := tasks st @ [t]\<rparr>) i = Some a" for t
    by (auto simp: owner_def lookup_def find_append_cases split: option.splits)
  with assms(2) CreateTask show ?thesis
    by (simp add: serve_create_cases Let_def split: list.splits)
next
  case (UpdateTask ident b)
  have "owner (st\<lparr>tasks := update_first P (apply_set e d) (tasks st)\<rparr>) i = owner st i" for P d
    unfolding owner_def lookup_def
    by (simp add: find_oid_update_first apply_set_def)
  with assms(2) UpdateTask show ?thesis
    by (simp add: serve_update_cases Let_def split: option.splits list.splits)
next
  case (DeleteTask ident)
  from assms(1) have d: "distinct (map oid (tasks st))" by (simp add: wf_db_def)
  show ?thesis
  proof (cases "castObjectId ident")
    case None
    with assms(2) DeleteTask show ?thesis by (simp add: serve_delete_cases)
  next
    case (Some j)
    show ?thesis
    proof (cases "find (owned j uid) (tasks st)")
      case None
      with Some assms(2) DeleteTask show ?thesis by (simp add: serve_delete_cases)
    next
      case (Some t)
      then have t: "t \<in> set (tasks st)" "oid t = j" "userId t = uid"
        using find_owned_Some by blast+
      have st': "snd (serve e st uid r) = st\<lparr>tasks := remove_first (owned j uid) (tasks st)\<rparr>"
        using Some \<open>castObjectId ident = Some j\<close> DeleteTask by (simp add: serve_delete_cases)
      show ?thesis
      proof (cases "i = j")
        case True
        from assms(2) obtain t' where t': "find (\<lambda>t. oid t = i) (tasks st) = Some t'" "userId t' = a"
          by (auto simp: owner_def lookup_def)
        then have "t' \<in> set (tasks st)" "oid t' = i" using find_oid_Some by blast+
        with t True d have "t' = t" by (metis oid_inj)
        with t t' have "uid = a" by simp
        moreover have "owner (snd (serve e st uid r)) i = None"
          unfolding st' owner_def lookup_def using d Some True
          by (simp add: find_oid_remove_first)
        ultimately show ?thesis using DeleteTask by blast
      next
        case False
        have "owner (snd (serve e st uid r)) i = owner st i"
          unfolding st' owner_def lookup_def using d False
          by (simp add: find_oid_remove_first)
        with assms(2) show ?thesis by simp
      qed
    qed
  qed
qed

lemma owner_created:
  assumes "fst (serve e st uid (CreateTask b)) = \<lparr>code = 201, body = TaskBody t\<rparr>"
  shows "userId t = uid \<and> owner st (oid t) = None \<and>
         owner (snd (serve e st uid (CreateTask b))) (oid t) = Some uid"
proof -
  from serve_create_201 [OF assms]
  have t: "oid t = newId e" "userId t = uid" "newId e \<notin> set (map oid (tasks st))"
    and st': "snd (serve e st uid (CreateTask b)) = st\<lparr>tasks := tasks st @ [t]\<rparr>"
    by blast+
  from t have none: "find (\<lambda>x. oid x = oid t) (tasks st) = None"
    by (simp add: find_oid_None)
  then have "owner st (oid t) = None"
    by (simp add: owner_def lookup_def)
  moreover from none t have "owner (st\<lparr>tasks := tasks st @ [t]\<rparr>) (oid t) = Some uid"
    by (simp add: owner_def lookup_def find_append_cases)
  ultimately show ?thesis using t st' by simp
qed

section \<open>Ownership isolation\<close>

text \<open>
  C1 as stated: for every task created under identity A and every distinct identity B, a
  get-one, update, or delete request by B using that task's identifier returns NotFound
  (404). It fails for update: the PATCH handler validates the body before it looks the
  task up, so B's PATCH of A's task with an empty body is answered 400, not 404.
\<close>

theorem foreign_empty_patch_is_400:
  "fst (serve env0 store0 ''u2'' (UpdateTask ''507f1f77bcf86cd799439011''
      \<lparr>u_title = None, u_description = None, u_status = None, u_other = []\<rparr>)) =
     \<lparr>code = 400, body = ErrorBody ''ValidationError'' ''No valid fields provided for update''\<rparr> \<and>
   owner store0 ''507f1f77bcf86cd799439011'' = Some ''u1''"
  by (simp add: serve_update_cases truthy_def owner_def lookup_def store0_def task_a_def)

text \<open>
  C1 (amended). For every task of identity A in a well-formed store and every other
  identity B, with the task's identifier in any spelling the store accepts: get-one and
  delete by B return NotFound (404) and leave the store unchanged; update by B returns
  NotFound (404) and leaves the store unchanged, unless its body is one that is answered
  400 for every store, identity and identifier (the body itself is rejected), in which
  case the store is unchanged as well. So the reply is never 200 and never 403. The
  reply to the update is the reply B would get if the task did not exist.
\<close>

theorem ownership_isolation:
  assumes "wf_db st" and "t \<in> set (tasks st)" and "userId t \<noteq> b"
    and "castObjectId ident = Some (oid t)"
  shows "serve e st b (GetTask ident) = (not_found, st) \<and>
         serve e st b (DeleteTask ident) = (not_found, st) \<and>
         (serve e st b (UpdateTask ident upd) = (not_found, st) \<or>
          snd (serve e st b (UpdateTask ident upd)) = st \<and>
          (\<forall>e' st' u' i'. code (fst (serve e' st' u' (UpdateTask i' upd))) = 400)) \<and>
         fst (serve e st b (UpdateTask ident upd)) =
           fst (serve e (st\<lparr>tasks := remove1 t (tasks st)\<rparr>) b (UpdateTask ident upd)) \<and>
         fst (serve e (st\<lparr>tasks := remove1 t (tasks st)\<rparr>) b (GetTask ident)) = not_found \<and>
         fst (serve e (st\<lparr>tasks := remove1 t (tasks st)\<rparr>) b (DeleteTask ident)) = not_found"
proof -
  from assms have none: "find (owned (oid t) b) (tasks st) = None"
    by (simp add: wf_db_def find_owned_other)
  from assms have none': "find (owned (oid t) b) (remove1 t (tasks st)) = None"
    by (simp add: wf_db_def find_owned_remove1)
  have get: "serve e st b (GetTask ident) = (not_found, st)"
    using none assms(4) by (simp add: serve_get_cases)
  have del: "serve e st b (DeleteTask ident) = (not_found, st)"
    using none assms(4) by (simp add: serve_delete_cases)
  have upd: "serve e st b (UpdateTask ident upd) = (not_found, st) \<or>
          snd (serve e st b (UpdateTask ident upd)) = st \<and>
          (\<forall>e' st' u' i'. code (fst (serve e' st' u' (UpdateTask i' upd))) = 400)"
    using none assms(4)
    by (simp add: serve_update_cases split: option.splits list.splits)
  have same: "fst (serve e st b (UpdateTask ident upd)) =
           fst (serve e (st\<lparr>tasks := remove1 t (tasks st)\<rparr>) b (UpdateTask ident upd))"
    using none none' assms(4)
    by (simp add: serve_update_cases split: option.splits list.splits)
  have gone: "fst (serve e (st\<lparr>tasks := remove1 t (tasks st)\<rparr>) b (GetTask ident)) = not_found"
    "fst (serve e (st\<lparr>tasks := remove1 t (tasks st)\<rparr>) b (DeleteTask ident)) = not_found"
    using none' assms(4) by (simp_all add: serve_get_cases serve_delete_cases)
  from get del upd same gone show ?thesis by blast
qed

theorem ownership_isolation_witness:
  "wf_db store0 \<and> task_a \<in> set (tasks store0) \<and> userId task_a \<noteq> ''u2'' \<and>
   castObjectId ''507f1f77bcf86cd799439011'' = Some (oid task_a) \<and>
   serve env0 store0 ''u2'' (GetTask ''507f1f77bcf86cd799439011'') = (not_found, store0) \<and>
   serve env0 store0 ''u2'' (DeleteTask ''507f1f77bcf86cd799439011'') = (not_found, store0) \<and>
   serve env0 store0 ''u2'' (UpdateTask ''507f1f77bcf86cd799439011''
      \<lparr>u_title = Some ''Hacked Title'', u_description = None, u_status = None, u_other = []\<rparr>) =
     (not_found, store0)"
proof -
  have h: "task_a \<in> set (tasks store0)" "userId task_a \<noteq> ''u2''"
    "castObjectId ''507f1f77bcf86cd799439011'' = Some (oid task_a)"
    by (simp_all add: store0_def task_a_def cast_task_a)
  let ?upd = "\<lparr>u_title = Some ''Hacked Title'', u_description = None, u_status = None, u_other = []\<rparr>"
  have ok: "code (fst (serve env0 store0 ''u1'' (UpdateTask ''507f1f77bcf86cd799439011'' ?upd))) = 200"
    by (simp add: serve_update_cases truthy_def cast_task_a failures_def List.map_filter_simps
          trim_def isSpace_def validate_title_def store0_def task_a_def owned_def Let_def)
  have "\<not> (\<forall>e' st' u' i'. code (fst (serve e' st' u' (UpdateTask i' ?upd))) = 400)"
  proof
    assume "\<forall>e' st' u' i'. code (fst (serve e' st' u' (UpdateTask i' ?upd))) = 400"
    then have "code (fst (serve env0 store0 ''u1''
        (UpdateTask ''507f1f77bcf86cd799439011'' ?upd))) = 400"
      by blast
    with ok show False by simp
  qed
  with ownership_isolation [OF wf_store0 h, of env0 ?upd] wf_store0 h show ?thesis
    by blast
qed

section \<open>The identity resolver under a racing create\<close>

text \<open>
  C2 as stated: when creating the identity record for a previously unseen token fails
  with a uniqueness violation, the resolver treats it as "record now exists" and binds
  the token. It does not: the create is inside the \<^verbatim>\<open>try\<close> block, and the \<^verbatim>\<open>catch\<close>
  answers every error with 500. Here another request registers \<^verbatim>\<open>u1\<close> between the
  lookup and the create; the request is answered 500 and no token is bound. The same
  request without the race is let through.
\<close>

theorem create_race_is_500:
  "User_findOne no_users ''u1'' = None \<and>
   authMiddleware env0 signup_u1 no_users (Some ''u1'') = (Inl auth_failed, signup_u1 no_users) \<and>
   authMiddleware env0 (\<lambda>st. st) (signup_u1 no_users) (Some ''u1'') = (Inr ''u1'', signup_u1 no_users)"
  by (simp add: authMiddleware_def User_findOne_def User_create_def no_users_def signup_u1_def
        trim_def isSpace_def Let_def)

text \<open>
  C2 (amended). In the identity resolver, when the lookup finds no record for the token
  and the create then fails with a uniqueness violation (the token is in the store by the
  time of the create), the resolver answers 500 "Failed to authenticate user", binds no
  token, and writes nothing itself.
\<close>

theorem create_race_fails:
  assumes "uid \<noteq> []" and "User_findOne st uid = None"
    and "trim uid \<in> set (map user_userId (users (others st)))"
  shows "authMiddleware e others st (Some uid) = (Inl auth_failed, others st)"
  using assms by (simp add: authMiddleware_def User_create_def Let_def)

theorem create_race_fails_witness:
  "''u1'' \<noteq> [] \<and> User_findOne no_users ''u1'' = None \<and>
   trim ''u1'' \<in> set (map user_userId (users (signup_u1 no_users))) \<and>
   authMiddleware env0 signup_u1 no_users (Some ''u1'') = (Inl auth_failed, signup_u1 no_users)"
proof -
  have h: "''u1'' \<noteq> []" "User_findOne no_users ''u1'' = None"
    "trim ''u1'' \<in> set (map user_userId (users (signup_u1 no_users)))"
    by (simp_all add: User_findOne_def no_users_def signup_u1_def trim_def isSpace_def)
  from create_race_fails [where others = signup_u1 and st = no_users and uid = "''u1''"
      and e = env0] h
  show ?thesis by simp
qed

section \<open>Delete\<close>

text \<open>
  C3 as stated: for every delete request whose identifier does not match a task owned by
  the caller, identifiers in any form included, the delete fails with NotFound (404), and
  NotFound is the only failure of delete. It fails for an identifier that is no ObjectId:
  the store call throws a \<^verbatim>\<open>CastError\<close>, which the error handler answers with 400.
\<close>

theorem delete_malformed_id_is_400:
  "serve env0 store0 ''u1'' (DeleteTask ''invalid-id'') =
     (\<lparr>code = 400, body = ErrorBody ''CastError'' ''Invalid task ID format''\<rparr>, store0) \<and>
   fst (serve env0 store0 ''u1'' (DeleteTask ''invalid-id'')) \<noteq> not_found"
  by (simp add: serve_delete_cases cast_invalid_id not_found_def)

text \<open>
  C3 (amended). A delete request fails in two ways. If its identifier is no ObjectId, it
  fails with 400 "Invalid task ID format". If its identifier is an ObjectId and no task
  with that identifier is owned by the caller, it fails with NotFound (404). In both
  cases the store is unchanged. If a task with that identifier is owned by the caller,
  the reply is 204 with no body.
\<close>

theorem delete_outcomes:
  "(castObjectId ident = None \<longrightarrow>
      serve e st uid (DeleteTask ident) =
        (\<lparr>code = 400, body = ErrorBody ''CastError'' ''Invalid task ID format''\<rparr>, st)) \<and>
   (\<forall>i. castObjectId ident = Some i \<and> (\<forall>t\<in>set (tasks st). \<not> (oid t = i \<and> userId t = uid)) \<longrightarrow>
      serve e st uid (DeleteTask ident) = (not_found, st)) \<and>
   (\<forall>i t. castObjectId ident = Some i \<and> t \<in> set (tasks st) \<and> oid t = i \<and> userId t = uid \<longrightarrow>
      fst (serve e st uid (DeleteTask ident)) = \<lparr>code = 204, body = NoBody\<rparr>)"
proof (intro conjI allI impI)
  assume "castObjectId ident = None"
  then show "serve e st uid (DeleteTask ident) =
        (\<lparr>code = 400, body = ErrorBody ''CastError'' ''Invalid task ID format''\<rparr>, st)"
    by (simp add: serve_delete_cases)
next
  fix i
  assume "castObjectId ident = Some i \<and> (\<forall>t\<in>set (tasks st). \<not> (oid t = i \<and> userId t = uid))"
  then have "castObjectId ident = Some i" and "find (owned i uid) (tasks st) = None"
    by (simp_all add: find_owned_None)
  then show "serve e st uid (DeleteTask ident) = (not_found, st)"
    by (simp add: serve_delete_cases)
next
  fix i t
  assume a: "castObjectId ident = Some i \<and> t \<in> set (tasks st) \<and> oid t = i \<and> userId t = uid"
  then have "find (owned i uid) (tasks st) \<noteq> None"
    unfolding find_owned_None by blast
  with a show "fst (serve e st uid (DeleteTask ident)) = \<lparr>code = 204, body = NoBody\<rparr>"
    by (auto simp: serve_delete_cases)
qed

theorem delete_outcomes_witness:
  "serve env0 store0 ''u1'' (DeleteTask ''invalid-id'') =
     (\<lparr>code = 400, body = ErrorBody ''CastError'' ''Invalid task ID format''\<rparr>, store0) \<and>
   serve env0 store0 ''u2'' (DeleteTask ''507f1f77bcf86cd799439011'') = (not_found, store0) \<and>
   fst (serve env0 store0 ''u1'' (DeleteTask ''507f1f77bcf86cd799439011'')) =
     \<lparr>code = 204, body = NoBody\<rparr>"
proof -
  have a: "\<forall>t\<in>set (tasks store0). \<not> (oid t = ''507f1f77bcf86cd799439011'' \<and> userId t = ''u2'')"
    by (simp add: store0_def task_a_def task_b_def)
  have b: "task_a \<in> set (tasks store0) \<and> oid task_a = ''507f1f77bcf86cd799439011'' \<and>
      userId task_a = ''u1''"
    by (simp add: store0_def task_a_def)
  from delete_outcomes [of "''invalid-id''" env0 store0 "''u1''"] cast_invalid_id
  have 1: "serve env0 store0 ''u1'' (DeleteTask ''invalid-id'') =
     (\<lparr>code = 400, body = ErrorBody ''CastError'' ''Invalid task ID format''\<rparr>, store0)"
    by blast
  from delete_outcomes [of "''507f1f77bcf86cd799439011''" env0 store0 "''u2''"] cast_task_a a
  have 2: "serve env0 store0 ''u2'' (DeleteTask ''507f1f77bcf86cd799439011'') = (not_found, store0)"
    by blast
  from delete_outcomes [of "''507f1f77bcf86cd799439011''" env0 store0 "''u1''"] cast_task_a b
  have 3: "fst (serve env0 store0 ''u1'' (DeleteTask ''507f1f77bcf86cd799439011'')) =
     \<lparr>code = 204, body = NoBody\<rparr>"
    by blast
  from 1 2 3 show ?thesis by blast
qed

section \<open>List\<close>

lemma sorted_newest_first:
  "sorted_wrt (\<lambda>a b. createdAt b \<le> createdAt a) (sort_key (\<lambda>t. - createdAt t) ts)"
proof -
  have "sorted (map (\<lambda>t. - createdAt t) (sort_key (\<lambda>t. - createdAt t) ts))"
    by (rule sorted_sort_key)
  then show ?thesis by (simp add: sorted_map)
qed

lemma toNumber_exact: "\<bar>n\<bar> \<le> 2 ^ 53 \<Longrightarrow> toNumber n = Num n"
  by (simp add: toNumber_def)

text \<open>Beyond \<open>2^53\<close> the parsed number is rounded: \<open>2^53 + 1\<close> parses to \<open>2^53\<close>.\<close>

lemma bit_length_example: "bit_length 9007199254740993 = 54"
  by (simp add: bit_length.simps)

lemma toNumber_rounds: "toNumber 9007199254740993 = Num 9007199254740992"
  by (simp add: toNumber_def bit_length_example Let_def)

lemma skip_of_exact:
  assumes "1 \<le> k" and "1 \<le> p" and "(k - 1) * p \<le> 2 ^ 53"
  shows "skip_of (Num k) (Num p) = Num ((k - 1) * p)"
proof -
  from assms(1,2) have "(k - 1) * 1 \<le> (k - 1) * p"
    by (intro mult_left_mono) simp_all
  with assms have a: "\<bar>k - 1\<bar> \<le> 2 ^ 53" by simp
  from assms(1,2) have "0 \<le> (k - 1) * p" by simp
  with assms(3) have b: "\<bar>(k - 1) * p\<bar> \<le> 2 ^ 53" by simp
  show ?thesis
    by (simp add: skip_of_def js_minus_one_def js_times_def toNumber_exact [OF a]
          toNumber_exact [OF b])
qed

lemma ceil_div_pos:
  "p \<noteq> 0 \<Longrightarrow> ceil_div n (Num p) = Num \<lceil>real n / real_of_int p\<rceil>"
proof -
  have "\<lceil>real_of_int (int n) / real_of_int p\<rceil> = - (- int n div p)"
    by (rule ceiling_divide_eq_div)
  then show "p \<noteq> 0 \<Longrightarrow> ceil_div n (Num p) = Num \<lceil>real n / real_of_int p\<rceil>"
    by (simp add: ceil_div_def)
qed

text \<open>
  C4 as stated: for every identity owning N tasks, a list request with page k and page
  size P returns the caller's tasks newest first, from offset (k-1)*P, at most P of them,
  with total N and totalPages ceil(N/P). The identity \<^verbatim>\<open>u1\<close> owns two tasks. With a
  status filter the total is the number of matching tasks, here 1. With \<^verbatim>\<open>limit=0\<close>
  the store applies no limit: both tasks come back, and totalPages is \<^verbatim>\<open>Infinity\<close>.
  With \<^verbatim>\<open>page=0\<close> the skip is negative, the store rejects the query, and the reply is
  500.
\<close>

theorem list_edge_cases:
  "length (filter (\<lambda>t. userId t = ''u1'') (tasks store0)) = 2 \<and>
   serve env0 store0 ''u1'' (ListTasks \<lparr>q_status = Some ''Done'', q_page = None, q_limit = None\<rparr>) =
     (\<lparr>code = 200, body = ListBody [task_b]
        \<lparr>page = Num 1, limit = Num 50, total = 1, totalPages = Num 1\<rparr>\<rparr>, store0) \<and>
   serve env0 store0 ''u1'' (ListTasks \<lparr>q_status = None, q_page = None, q_limit = Some ''0''\<rparr>) =
     (\<lparr>code = 200, body = ListBody [task_b, task_a]
        \<lparr>page = Num 1, limit = Num 0, total = 2, totalPages = Infinity\<rparr>\<rparr>, store0) \<and>
   code (fst (serve env0 store0 ''u1''
      (ListTasks \<lparr>q_status = None, q_page = Some ''0'', q_limit = None\<rparr>))) = 500"
proof -
  have p: "parseInt ''1'' = Num 1" "parseInt ''50'' = Num 50" "parseInt ''0'' = Num 0"
    by (simp_all add: parseInt_def isSpace_def isDigit_def digits_def digitValue_def Let_def
          toNumber_exact)
  have sk: "skip_of (Num 1) (Num 50) = Num 0" "skip_of (Num 1) (Num 0) = Num 0"
    "skip_of (Num 0) (Num 50) = Num (- 50)"
    by (simp_all add: skip_of_def js_minus_one_def js_times_def toNumber_exact)
  have v: "''Done'' \<in> set TaskStatus_values"
    by (simp add: TaskStatus_values_def DONE_def)
  have o: "length (filter (\<lambda>t. userId t = ''u1'') (tasks store0)) = 2"
    by (simp add: store0_def task_a_def task_b_def)
  have 1: "serve env0 store0 ''u1'' (ListTasks \<lparr>q_status = Some ''Done'', q_page = None, q_limit = None\<rparr>) =
     (\<lparr>code = 200, body = ListBody [task_b]
        \<lparr>page = Num 1, limit = Num 50, total = 1, totalPages = Num 1\<rparr>\<rparr>, store0)"
    using v
    by (simp add: serve_def get_tasks_def p truthy_def sk Task_find_def
          Task_countDocuments_def matches_def ceil_div_def respond_Inr Let_def
          store0_def task_a_def task_b_def)
  have 2: "serve env0 store0 ''u1'' (ListTasks \<lparr>q_status = None, q_page = None, q_limit = Some ''0''\<rparr>) =
     (\<lparr>code = 200, body = ListBody [task_b, task_a]
        \<lparr>page = Num 1, limit = Num 0, total = 2, totalPages = Infinity\<rparr>\<rparr>, store0)"
    by (simp add: serve_def get_tasks_def p truthy_def sk Task_find_def
          Task_countDocuments_def matches_def ceil_div_def respond_Inr Let_def
          store0_def task_a_def task_b_def)
  have 3: "code (fst (serve env0 store0 ''u1''
      (ListTasks \<lparr>q_status = None, q_page = Some ''0'', q_limit = None\<rparr>))) = 500"
    by (simp add: serve_def get_tasks_def p truthy_def sk Task_find_def
          respond_MongoServerError Let_def)
  from o 1 2 3 show ?thesis by blast
qed

text \<open>
  C4 (amended). For a list request whose page and limit parameters (defaults 1 and 50)
  parse to integers k \<ge> 1 and P \<ge> 1, and whose status filter is absent or one of the
  four values: let N be the number of the caller's tasks that match the filter (all the
  caller's tasks when there is none). The reply is 200 with the tasks at positions
  (k-1)*P up to k*P of those N tasks ordered newest first by creation timestamp, so at
  most P records, and with pagination page k, limit P, total N and totalPages
  ceil(N/P). The store is unchanged. The handler computes on doubles, so this is for the
  range where they are exact: P and the offset (k-1)*P at most \<open>2^53\<close>, in a store
  of fewer than \<open>2^53\<close> tasks. Beyond it the parsed numbers are rounded
  (\<open>toNumber_rounds\<close>).
\<close>

theorem list_pagination:
  assumes "parseInt (case q_page query of None \<Rightarrow> ''1'' | Some v \<Rightarrow> v) = Num k" and "1 \<le> k"
    and "parseInt (case q_limit query of None \<Rightarrow> ''50'' | Some v \<Rightarrow> v) = Num p" and "1 \<le> p"
    and "q_status query = None \<or> (\<exists>s\<in>set TaskStatus_values. q_status query = Some s)"
    and "p \<le> 2 ^ 53" and "(k - 1) * p \<le> 2 ^ 53" and "length (tasks st) < 2 ^ 53"
  shows "\<exists>newest_first shown.
           mset newest_first =
             mset (filter (\<lambda>t. userId t = uid \<and>
                     (case q_status query of None \<Rightarrow> True | Some s \<Rightarrow> status t = s)) (tasks st)) \<and>
           sorted_wrt (\<lambda>a b. createdAt b \<le> createdAt a) newest_first \<and>
           shown = take (nat p) (drop (nat ((k - 1) * p)) newest_first) \<and>
           length shown \<le> nat p \<and>
           serve e st uid (ListTasks query) =
             (\<lparr>code = 200,
                body = ListBody shown
                  \<lparr>page = Num k, limit = Num p, total = length newest_first,
                    totalPages = Num \<lceil>real (length newest_first) / real_of_int p\<rceil>\<rparr>\<rparr>, st)"
proof -
  let ?q = "\<lparr>fq_userId = uid,
             fq_status = (if truthy (q_status query) then q_status query else None)\<rparr>"
  let ?mine = "filter (\<lambda>t. userId t = uid \<and>
                     (case q_status query of None \<Rightarrow> True | Some s \<Rightarrow> status t = s)) (tasks st)"
  let ?all = "sort_key (\<lambda>t. - createdAt t) ?mine"
  let ?shown = "take (nat p) (drop (nat ((k - 1) * p)) ?all)"
  from assms(5) have valid: "\<not> (case q_status query of None \<Rightarrow> False
                                | Some s \<Rightarrow> s \<notin> set TaskStatus_values)"
    by (auto split: option.splits)
  from assms(5) have "fq_status ?q = q_status query"
    by (auto simp: truthy_def dest: TaskStatus_values_nonempty)
  then have m: "filter (matches ?q) (tasks st) = ?mine"
    by (intro filter_cong refl) (simp add: matches_def)
  from assms(2,4) have skip: "\<not> (k - 1) * p < 0"
    by (simp add: not_less)
  from assms(4) have p0: "p \<noteq> 0" "\<bar>p\<bar> = p" by simp_all
  have find: "Task_find st ?q (Num ((k - 1) * p)) (Num p) = Inr ?shown"
    using skip p0 m by (simp add: Task_find_def Let_def)
  have count: "Task_countDocuments st ?q = length ?all"
    using m by (simp add: Task_countDocuments_def)
  have "serve e st uid (ListTasks query) =
             (\<lparr>code = 200,
                body = ListBody ?shown
                  \<lparr>page = Num k, limit = Num p, total = length ?all,
                    totalPages = Num \<lceil>real (length ?all) / real_of_int p\<rceil>\<rparr>\<rparr>, st)"
    unfolding serve_def get_tasks_def
    using valid assms(1,3) find count p0
    by (simp add: Let_def skip_of_exact [OF assms(2,4,7)] respond_Inr ceil_div_pos)
  moreover have "mset ?all = mset ?mine" by simp
  moreover have "sorted_wrt (\<lambda>a b. createdAt b \<le> createdAt a) ?all"
    by (rule sorted_newest_first)
  moreover have "length ?shown \<le> nat p" by simp
  ultimately show ?thesis by blast
qed

theorem list_pagination_witness:
  "serve env0 store0 ''u1'' (ListTasks \<lparr>q_status = None, q_page = Some ''2'', q_limit = Some ''1''\<rparr>) =
     (\<lparr>code = 200, body = ListBody [task_a]
        \<lparr>page = Num 2, limit = Num 1, total = 2, totalPages = Num 2\<rparr>\<rparr>, store0)"
proof -
  have p: "parseInt ''2'' = Num 2" "parseInt ''1'' = Num 1"
    by (simp_all add: parseInt_def isSpace_def isDigit_def digits_def digitValue_def Let_def
          toNumber_exact)
  have sk: "skip_of (Num 2) (Num 1) = Num 1"
    by (simp add: skip_of_def js_minus_one_def js_times_def toNumber_exact)
  let ?query = "\<lparr>q_status = None, q_page = Some ''2'', q_limit = Some ''1''\<rparr>"
  have n: "length (tasks store0) < 2 ^ 53"
    by (simp add: store0_def)
  from list_pagination [where query = ?query and k = 2 and p = 1 and uid = "''u1''"
      and st = store0 and e = env0] p n
  obtain newest_first shown where
    a: "mset newest_first = mset (filter (\<lambda>t. userId t = ''u1'') (tasks store0))"
    and b: "sorted_wrt (\<lambda>a b. createdAt b \<le> createdAt a) newest_first"
    and c: "shown = take (nat 1) (drop (nat ((2 - 1) * 1)) newest_first)"
    and d: "serve env0 store0 ''u1'' (ListTasks ?query) =
             (\<lparr>code = 200,
                body = ListBody shown
                  \<lparr>page = Num 2, limit = Num 1, total = length newest_first,
                    totalPages = Num \<lceil>real (length newest_first) / real_of_int 1\<rceil>\<rparr>\<rparr>, store0)"
    by auto
  have "serve env0 store0 ''u1'' (ListTasks ?query) =
     (\<lparr>code = 200, body = ListBody [task_a]
        \<lparr>page = Num 2, limit = Num 1, total = 2, totalPages = Num 2\<rparr>\<rparr>, store0)"
    by (simp add: serve_def get_tasks_def p truthy_def sk Task_find_def
          Task_countDocuments_def matches_def ceil_div_def respond_Inr Let_def
          store0_def task_a_def task_b_def)
  with d show ?thesis by simp
qed

section \<open>Update\<close>

text \<open>
  C5. For every existing task, an update request providing none of the fields title,
  description, or status fails with ValidationError (400) and leaves the task's stored
  record exactly unchanged. The request is any PATCH whose body has none of the three
  fields, by any identity on any identifier; the whole store comes back as it was, so
  every stored record does.
\<close>

theorem empty_update_rejected:
  "serve e st uid (UpdateTask ident
      \<lparr>u_title = None, u_description = None, u_status = None, u_other = other\<rparr>) =
   (\<lparr>code = 400,
      body = ErrorBody ''ValidationError'' ''No valid fields provided for update''\<rparr>, st)"
  by (simp add: serve_def patch_task_def truthy_def keys_def respond_simps)

theorem empty_update_rejected_witness:
  "serve env0 store0 ''u1'' (UpdateTask ''507f1f77bcf86cd799439011''
      \<lparr>u_title = None, u_description = None, u_status = None, u_other = []\<rparr>) =
   (\<lparr>code = 400,
      body = ErrorBody ''ValidationError'' ''No valid fields provided for update''\<rparr>, store0) \<and>
   lookup store0 ''507f1f77bcf86cd799439011'' = Some task_a"
  using empty_update_rejected [of env0 store0 "''u1''" "''507f1f77bcf86cd799439011''" "[]"]
  by (simp add: lookup_def store0_def task_a_def)

text \<open>
  C6. For every owned task, an update request providing only the title field changes at
  most the title and the last-modification timestamp: the task's description, status,
  owning identity, and creation timestamp are exactly as before the update. Stated for
  all stored tasks at once: after a PATCH with only \<^verbatim>\<open>title\<close>, by any identity on any
  identifier, the collection holds the same documents in the same order as far as
  \<^verbatim>\<open>_id\<close>, description, status, owner and creation time go.
\<close>

text \<open>
  C6. For every owned task, an update request providing only the title field changes at
  most the title and the last-modification timestamp: the task's description, status,
  owning identity, and creation timestamp are exactly as before the update. Stated for
  all stored tasks at once: after a PATCH with only \<^verbatim>\<open>title\<close>, by any identity on any
  identifier, the collection holds the same documents in the same order as far as
  \<^verbatim>\<open>_id\<close>, description, status, owner and creation time go.
\<close>

theorem title_only_update_frame:
  "map (\<lambda>t. (oid t, description t, status t, userId t, createdAt t))
     (tasks (snd (serve e st uid (UpdateTask ident
        \<lparr>u_title = Some v, u_description = None, u_status = None, u_other = other\<rparr>)))) =
   map (\<lambda>t. (oid t, description t, status t, userId t, createdAt t)) (tasks st)"
  unfolding serve_def patch_task_def Task_findOneAndUpdate_def
  by (auto simp: Let_def truthy_def keys_def apply_set_def intro!: map_update_first
       split: option.splits list.splits prod.splits)

theorem title_only_update_frame_witness:
  "serve env0 store0 ''u1'' (UpdateTask ''507f1f77bcf86cd799439011''
      \<lparr>u_title = Some ''  Z '', u_description = None, u_status = None, u_other = []\<rparr>) =
     (\<lparr>code = 200, body = TaskBody (task_a\<lparr>title := ''Z'', updatedAt := 30\<rparr>)\<rparr>,
      store0\<lparr>tasks := [task_a\<lparr>title := ''Z'', updatedAt := 30\<rparr>, task_b]\<rparr>) \<and>
   map (\<lambda>t. (oid t, description t, status t, userId t, createdAt t))
     [task_a\<lparr>title := ''Z'', updatedAt := 30\<rparr>, task_b] =
   map (\<lambda>t. (oid t, description t, status t, userId t, createdAt t)) (tasks store0)"
proof -
  let ?b = "\<lparr>u_title = Some ''  Z '', u_description = None, u_status = None, u_other = []\<rparr>"
  have 1: "serve env0 store0 ''u1'' (UpdateTask ''507f1f77bcf86cd799439011'' ?b) =
     (\<lparr>code = 200, body = TaskBody (task_a\<lparr>title := ''Z'', updatedAt := 30\<rparr>)\<rparr>,
      store0\<lparr>tasks := [task_a\<lparr>title := ''Z'', updatedAt := 30\<rparr>, task_b]\<rparr>)"
    by (simp add: serve_update_cases truthy_def cast_task_a failures_def List.map_filter_simps
          trim_def isSpace_def validate_title_def apply_set_def owned_def Let_def
          env0_def store0_def task_a_def task_b_def)
  from title_only_update_frame [of env0 store0 "''u1''" "''507f1f77bcf86cd799439011''" "''  Z ''" "[]"]
  show ?thesis unfolding 1 by (simp add: 1)
qed

text \<open>
  C7. For every create or update request whose status field is present and is not one of
  the four enum values "To do", "In Progress", "Done", "Archived", the operation fails
  with ValidationError (400) and no task is created or modified. A non-empty value is
  rejected by the handler's own check; the empty string passes that check and is rejected
  by the schema's validators (\<^verbatim>\<open>required\<close>, \<^verbatim>\<open>enum\<close>). The reply names the error
  \<^verbatim>\<open>ValidationError\<close>, except for an update with the empty status on an identifier
  that is no ObjectId, which is answered 400 under the name \<^verbatim>\<open>CastError\<close>.
\<close>

theorem invalid_status_rejected:
  assumes "s \<notin> set TaskStatus_values"
  shows "(\<exists>m. serve e st uid (CreateTask (b\<lparr>c_status := Some s\<rparr>)) =
            (\<lparr>code = 400, body = ErrorBody ''ValidationError'' m\<rparr>, st)) \<and>
         (\<exists>k m. serve e st uid (UpdateTask ident (u\<lparr>u_status := Some s\<rparr>)) =
            (\<lparr>code = 400, body = ErrorBody k m\<rparr>, st) \<and>
            (k = ''ValidationError'' \<or> castObjectId ident = None \<and> k = ''CastError''))"
proof
  from assms obtain m where m: "validate_status s = Some m"
    using validate_status_invalid by blast
  have f: "failures [x, y, validate_status s, z] \<noteq> []" for x y z
    by (rule failures_nonempty [of m]) (simp add: m)
  show "\<exists>m. serve e st uid (CreateTask (b\<lparr>c_status := Some s\<rparr>)) =
            (\<lparr>code = 400, body = ErrorBody ''ValidationError'' m\<rparr>, st)"
  proof (cases "s = []")
    case True
    with f [unfolded True] show ?thesis
      by (simp add: serve_create_cases Let_def split: list.splits)
  next
    case False
    with assms show ?thesis
      by (simp add: serve_create_cases Let_def)
  qed
  have g: "failures [x, y, Option.bind (Some s) validate_status] \<noteq> []" for x y
    by (rule failures_nonempty [of m]) (simp add: m)
  show "\<exists>k m. serve e st uid (UpdateTask ident (u\<lparr>u_status := Some s\<rparr>)) =
            (\<lparr>code = 400, body = ErrorBody k m\<rparr>, st) \<and>
            (k = ''ValidationError'' \<or> castObjectId ident = None \<and> k = ''CastError'')"
  proof (cases "s = []")
    case True
    with g [unfolded True] show ?thesis
      by (simp add: serve_update_cases truthy_def split: option.splits list.splits)
  next
    case False
    with assms show ?thesis
      by (simp add: serve_update_cases truthy_def)
  qed
qed

theorem invalid_status_rejected_witness:
  "''Invalid Status'' \<notin> set TaskStatus_values \<and>
   (\<exists>m. serve env0 store0 ''u1'' (CreateTask
      \<lparr>c_title = Some ''Test Task'', c_description = Some ''Description'',
        c_status = Some ''Invalid Status'', c_other = []\<rparr>) =
      (\<lparr>code = 400, body = ErrorBody ''ValidationError'' m\<rparr>, store0)) \<and>
   (\<exists>k m. serve env0 store0 ''u1'' (UpdateTask ''507f1f77bcf86cd799439011''
      \<lparr>u_title = None, u_description = None, u_status = Some ''Invalid Status'', u_other = []\<rparr>) =
      (\<lparr>code = 400, body = ErrorBody k m\<rparr>, store0))"
proof -
  have h: "''Invalid Status'' \<notin> set TaskStatus_values"
    by (simp add: TaskStatus_values_def TODO_def IN_PROGRESS_def DONE_def ARCHIVED_def)
  from invalid_status_rejected [OF h, of env0 store0 "''u1''"
      "\<lparr>c_title = Some ''Test Task'', c_description = Some ''Description'',
        c_status = None, c_other = []\<rparr>" "''507f1f77bcf86cd799439011''"
      "\<lparr>u_title = None, u_description = None, u_status = None, u_other = []\<rparr>"] h
  show ?thesis by auto
qed

text \<open>
  C8. Every task's owning identity (userId) is set at creation to the resolved identity of
  the creating request and is never changed afterwards by any operation, including
  updates whose request body contains a userId field. A task that a create request
  answers with 201 is new in the store and owned by the caller, whatever other keys the
  body has. After any request of any identity, a task that had an owner has the same
  owner, or is gone because its owner deleted it.
\<close>

theorem owner_set_once:
  assumes "wf_db st"
  shows "(\<forall>t. fst (serve e st uid (CreateTask b)) = \<lparr>code = 201, body = TaskBody t\<rparr> \<longrightarrow>
            userId t = uid \<and> owner st (oid t) = None \<and>
            owner (snd (serve e st uid (CreateTask b))) (oid t) = Some uid) \<and>
         (\<forall>i a. owner st i = Some a \<longrightarrow>
            owner (snd (serve e st uid r)) i = Some a \<or>
            owner (snd (serve e st uid r)) i = None \<and> uid = a \<and> (\<exists>ident. r = DeleteTask ident))"
  using owner_created owner_after_serve [OF assms] by blast

theorem owner_set_once_witness:
  "wf_db store0 \<and>
   fst (serve env0 store0 ''u2'' (CreateTask
      \<lparr>c_title = Some ''T'', c_description = Some ''D'', c_status = None,
        c_other = [(''userId'', ''u1'')]\<rparr>)) =
     \<lparr>code = 201, body = TaskBody
        \<lparr>oid = ''507f1f77bcf86cd799439013'', title = ''T'', description = ''D'',
          status = ''To do'', userId = ''u2'', createdAt = 30, updatedAt = 30\<rparr>\<rparr> \<and>
   owner (snd (serve env0 store0 ''u2'' (CreateTask
      \<lparr>c_title = Some ''T'', c_description = Some ''D'', c_status = None,
        c_other = [(''userId'', ''u1'')]\<rparr>))) ''507f1f77bcf86cd799439013'' = Some ''u2'' \<and>
   owner store0 ''507f1f77bcf86cd799439011'' = Some ''u1'' \<and>
   owner (snd (serve env0 store0 ''u1'' (UpdateTask ''507f1f77bcf86cd799439011''
      \<lparr>u_title = Some ''X'', u_description = None, u_status = None,
        u_other = [(''userId'', ''u2'')]\<rparr>))) ''507f1f77bcf86cd799439011'' = Some ''u1''"
proof -
  let ?b = "\<lparr>c_title = Some ''T'', c_description = Some ''D'', c_status = None,
        c_other = [(''userId'', ''u1'')]\<rparr>"
  let ?t = "\<lparr>oid = ''507f1f77bcf86cd799439013'', title = ''T'', description = ''D'',
          status = ''To do'', userId = ''u2'', createdAt = 30, updatedAt = 30\<rparr>"
  let ?u = "\<lparr>u_title = Some ''X'', u_description = None, u_status = None,
        u_other = [(''userId'', ''u2'')]\<rparr>"
  have c: "fst (serve env0 store0 ''u2'' (CreateTask ?b)) = \<lparr>code = 201, body = TaskBody ?t\<rparr>"
    by (simp add: serve_create_cases Let_def truthy_def TODO_def TaskStatus_values_def
          trim_def isSpace_def failures_def List.map_filter_simps validate_title_def
          validate_description_def validate_status_def validate_userId_def
          env0_def store0_def task_a_def task_b_def)
  have o: "owner store0 ''507f1f77bcf86cd799439011'' = Some ''u1''"
    by (simp add: owner_def lookup_def store0_def task_a_def)
  from owner_set_once [OF wf_store0, of env0 "''u2''" ?b] c
  have 1: "owner (snd (serve env0 store0 ''u2'' (CreateTask ?b))) (oid ?t) = Some ''u2''"
    by blast
  from owner_set_once [OF wf_store0, of env0 "''u1''" _ "UpdateTask ''507f1f77bcf86cd799439011'' ?u"] o
  have 2: "owner (snd (serve env0 store0 ''u1'' (UpdateTask ''507f1f77bcf86cd799439011'' ?u)))
      ''507f1f77bcf86cd799439011'' = Some ''u1''"
    by blast
  from wf_store0 c o 1 2 show ?thesis by simp
qed

text \<open>
  C9. For every owned task, after a successful delete of its identifier (returning 204), a
  subsequent get-one by the same identity on that same identifier returns NotFound (404).
\<close>

theorem delete_then_get:
  assumes "wf_db st" and "serve e st uid (DeleteTask ident) = (r, st')" and "code r = 204"
  shows "serve e' st' uid (GetTask ident) = (not_found, st')"
proof -
  from assms(2,3) obtain i where i: "castObjectId ident = Some i"
    and st': "st' = st\<lparr>tasks := remove_first (owned i uid) (tasks st)\<rparr>"
    unfolding serve_delete_cases
    by (auto simp: not_found_def split: option.splits)
  from assms(1) have "find (owned i uid) (tasks st') = None"
    unfolding st' by (simp add: wf_db_def find_remove_first)
  with i show ?thesis
    by (simp add: serve_get_cases)
qed

theorem delete_then_get_witness:
  "wf_db store0 \<and>
   serve env0 store0 ''u1'' (DeleteTask ''507f1f77bcf86cd799439011'') =
     (\<lparr>code = 204, body = NoBody\<rparr>, store0\<lparr>tasks := [task_b]\<rparr>) \<and>
   serve env0 (store0\<lparr>tasks := [task_b]\<rparr>) ''u1'' (GetTask ''507f1f77bcf86cd799439011'') =
     (not_found, store0\<lparr>tasks := [task_b]\<rparr>)"
proof -
  have d: "serve env0 store0 ''u1'' (DeleteTask ''507f1f77bcf86cd799439011'') =
     (\<lparr>code = 204, body = NoBody\<rparr>, store0\<lparr>tasks := [task_b]\<rparr>)"
    by (simp add: serve_delete_cases cast_task_a store0_def task_a_def owned_def)
  from delete_then_get [OF wf_store0 d] wf_store0 d show ?thesis by simp
qed

text \<open>
  C10. An update request whose body's provided keys include none of title, description, or
  status (for example only unrecognized fields) is rejected as an empty update with
  ValidationError (400), and fields outside {title, description, status} are never
  written to the stored task. The keys the interface does not declare have no effect at
  all: the reply and the store are the same whatever they are, and an update leaves
  \<^verbatim>\<open>_id\<close>, owner and creation time of every stored task as they were (the store
  itself sets \<^verbatim>\<open>updatedAt\<close>).
\<close>

theorem unrecognised_fields_ignored:
  "serve e st uid (UpdateTask ident
      \<lparr>u_title = None, u_description = None, u_status = None, u_other = other\<rparr>) =
   (\<lparr>code = 400,
      body = ErrorBody ''ValidationError'' ''No valid fields provided for update''\<rparr>, st) \<and>
   serve e st uid (UpdateTask ident (b\<lparr>u_other := other\<rparr>)) = serve e st uid (UpdateTask ident b) \<and>
   map (\<lambda>t. (oid t, userId t, createdAt t)) (tasks (snd (serve e st uid (UpdateTask ident b)))) =
   map (\<lambda>t. (oid t, userId t, createdAt t)) (tasks st)"
proof -
  have 1: "serve e st uid (UpdateTask ident
      \<lparr>u_title = None, u_description = None, u_status = None, u_other = other\<rparr>) =
   (\<lparr>code = 400,
      body = ErrorBody ''ValidationError'' ''No valid fields provided for update''\<rparr>, st)"
    by (simp add: serve_update_cases truthy_def)
  have 2: "serve e st uid (UpdateTask ident (b\<lparr>u_other := other\<rparr>)) = serve e st uid (UpdateTask ident b)"
    by (simp add: serve_def patch_task_def)
  have "map (\<lambda>t. (oid t, userId t, createdAt t)) (update_first P (apply_set e d) ts) =
        map (\<lambda>t. (oid t, userId t, createdAt t)) ts" for P d ts
    by (rule map_update_first) (simp add: apply_set_def)
  then have 3: "map (\<lambda>t. (oid t, userId t, createdAt t)) (tasks (snd (serve e st uid (UpdateTask ident b)))) =
   map (\<lambda>t. (oid t, userId t, createdAt t)) (tasks st)"
    by (simp add: serve_update_cases Let_def split: option.splits list.splits)
  from 1 2 3 show ?thesis by blast
qed

end
